theory Spec2Isabelle
  imports Main "HOL-Library.Sublist"
begin

section \<open>Paths and archive entry names\<close>

text \<open>
  Python strings are modelled as \<open>string\<close>. \<open>decimal\<close> is \<open>str\<close> on a natural
  number, \<open>format_05d\<close> is the format specification \<open>05d\<close> of an f-string
  (sign-aware zero padding to a total width of five), \<open>basename\<close> is
  \<open>os.path.basename\<close> of \<open>posixpath\<close>: everything after the last slash.
\<close>

definition digit_char :: "nat \<Rightarrow> char" where
  "digit_char d = ''0123456789'' ! d"

fun decimal :: "nat \<Rightarrow> string" where
  "decimal n = (if n < 10 then [digit_char n] else decimal (n div 10) @ [digit_char (n mod 10)])"

declare decimal.simps [simp del]

definition zfill :: "nat \<Rightarrow> string \<Rightarrow> string" where
  "zfill w s = replicate (w - length s) CHR ''0'' @ s"

definition format_05d :: "int \<Rightarrow> string" where
  "format_05d e =
     (if e < 0 then CHR ''-'' # zfill 4 (decimal (nat (- e))) else zfill 5 (decimal (nat e)))"

definition basename :: "string \<Rightarrow> string" where
  "basename p = rev (takeWhile (\<lambda>c. c \<noteq> CHR ''/'') (rev p))"

text \<open>Line 20 of the source: \<open>archname = f"{epoch:05d}/{os.path.basename(file)}"\<close>.\<close>

definition archname :: "int \<Rightarrow> string \<Rightarrow> string" where
  "archname epoch file = format_05d epoch @ ''/'' @ basename file"

text \<open>Reading a decimal numeral back; used to state what \<open>format_05d\<close> denotes.\<close>

definition digit_val :: "char \<Rightarrow> nat" where
  "digit_val c = of_char c - 48"

definition numeral_val :: "string \<Rightarrow> nat" where
  "numeral_val s = foldl (\<lambda>a c. 10 * a + digit_val c) 0 s"

definition int_val :: "string \<Rightarrow> int" where
  "int_val s = (case s of [] \<Rightarrow> 0
     | c # cs \<Rightarrow> if c = CHR ''-'' then - int (numeral_val cs) else int (numeral_val s))"

definition is_digit :: "char \<Rightarrow> bool" where
  "is_digit c = (c \<in> set ''0123456789'')"


section \<open>Data model\<close>

text \<open>
  A \<open>Task\<close> is the dictionary built on line 132 of the source. The queue carries
  Python values: such a dictionary, or the string that \<open>_await_queue\<close> puts on it.
  The exceptions are the ones the source raises (\<open>Exception\<close>, with its message; the
  bare \<open>raise Exception\<close> has the empty message) and the ones the library calls raise.
\<close>

datatype error = Exception string | FileNotFoundError | TypeError | ValueError | AttributeError

record task =
  epoch :: int
  files :: "string list"

datatype item = Dict task | Str string

text \<open>
  A member of the archive: its name and its bytes. The archive at \<open>tar_fp\<close> is the list
  of its members in the order they were appended, as \<open>getmembers\<close> returns them; a tar
  file may hold several members of one name. The file system maps the path of every
  regular file to its bytes and holds the set of its directories. The archive itself is
  kept apart from the file system: no task names the archive as one of its files, and
  opening the archive succeeds.
\<close>

record tarinfo =
  name :: string
  data :: string

record filesystem =
  file_at :: "string \<rightharpoonup> string"
  dir_at :: "string set"

text \<open>
  \<open>multiprocessing.JoinableQueue\<close>: the items in FIFO order and the count of items put
  and not yet acknowledged by \<open>task_done\<close>, which raises \<open>ValueError\<close> when it is
  called more often than items were put.
\<close>

record jqueue =
  items :: "item list"
  unfinished :: nat

definition put :: "item \<Rightarrow> jqueue \<Rightarrow> jqueue" where
  "put x q = q\<lparr>items := items q @ [x], unfinished := Suc (unfinished q)\<rparr>"

definition task_done :: "jqueue \<Rightarrow> error + jqueue" where
  "task_done q =
     (if unfinished q = 0 then Inl ValueError else Inr (q\<lparr>unfinished := unfinished q - 1\<rparr>))"

text \<open>
  The worker process: running its loop, returned from \<open>add_files_daemon\<close>, ended by an
  exception, or killed. \<open>is_alive\<close> holds of \<open>Running\<close> only. The log records, in
  order, what the worker does with the queue and with its handle on the archive.
\<close>

datatype process = Running | Exited | Crashed error | Killed

datatype event = Get item | TaskDone | TarClose

record state =
  tar_fp :: string
  fs :: filesystem
  tar :: "tarinfo list"
  queue :: "jqueue option"
  daemon :: "process option"
  log :: "event list"

datatype result = Returns state | Raises error state | Blocks

section \<open>The worker\<close>

text \<open>
  \<open>tarf.add(name=file, arcname=archname)\<close> appends the bytes of the file under the
  entry name and raises when there is no such file; \<open>os.remove(file)\<close> deletes the
  file and raises when there is none.
\<close>

definition tar_add :: "string \<Rightarrow> string \<Rightarrow> tarinfo list \<Rightarrow> filesystem \<Rightarrow> error + tarinfo list" where
  "tar_add file arcname tarf fsys =
     (case file_at fsys file of
        None \<Rightarrow> Inl FileNotFoundError
      | Some bytes \<Rightarrow> Inr (tarf @ [\<lparr>name = arcname, data = bytes\<rparr>]))"

definition os_remove :: "string \<Rightarrow> filesystem \<Rightarrow> error + filesystem" where
  "os_remove file fsys =
     (case file_at fsys file of
        None \<Rightarrow> Inl FileNotFoundError
      | Some _ \<Rightarrow> Inr (fsys\<lparr>file_at := (file_at fsys)(file := None)\<rparr>))"

text \<open>
  \<open>add_files\<close>, lines 15 to 23. An exception leaves the loop at once; what was appended
  and removed before it stays so, hence the error carries the archive and the file system
  it was raised in.
\<close>

fun add_files ::
  "tarinfo list \<Rightarrow> int \<Rightarrow> string list \<Rightarrow> filesystem
     \<Rightarrow> (error \<times> tarinfo list \<times> filesystem) + (tarinfo list \<times> filesystem)" where
  "add_files tarf ep [] fsys = Inr (tarf, fsys)"
| "add_files tarf ep (file # rest) fsys =
     (case tar_add file (archname ep file) tarf fsys of
        Inl e \<Rightarrow> Inl (e, tarf, fsys)
      | Inr tarf' \<Rightarrow>
          (case os_remove file fsys of
             Inl e \<Rightarrow> Inl (e, tarf', fsys)
           | Inr fsys' \<Rightarrow> add_files tarf' ep rest fsys'))"

text \<open>
  One turn of the loop of \<open>add_files_daemon\<close>, lines 36 to 43. With an empty queue the
  worker waits in \<open>queue.get\<close> and nothing changes. On the string \<open>break\<close> it leaves
  the loop, the \<open>with\<close> block closes the archive, and line 43 acknowledges the item.
  Any other item is passed to \<open>add_files\<close> as keyword arguments, which raises
  \<open>TypeError\<close> for a string; an exception closes the archive on its way out of the
  \<open>with\<close> block and ends the process, the item unacknowledged.
\<close>

definition loop_body :: "state \<Rightarrow> state" where
  "loop_body s =
     (case (daemon s, queue s) of
        (Some Running, Some q) \<Rightarrow>
          (case items q of
             [] \<Rightarrow> s
           | x # rest \<Rightarrow>
               let q1 = q\<lparr>items := rest\<rparr> in
               if x = Str ''break'' then
                 (case task_done q1 of
                    Inl e \<Rightarrow> s\<lparr>queue := Some q1, daemon := Some (Crashed e),
                                log := log s @ [Get x, TarClose]\<rparr>
                  | Inr q2 \<Rightarrow> s\<lparr>queue := Some q2, daemon := Some Exited,
                                log := log s @ [Get x, TarClose, TaskDone]\<rparr>)
               else
                 (case x of
                    Str _ \<Rightarrow> s\<lparr>queue := Some q1, daemon := Some (Crashed TypeError),
                                log := log s @ [Get x, TarClose]\<rparr>
                  | Dict t \<Rightarrow>
                      (case add_files (tar s) (epoch t) (files t) (fs s) of
                         Inl (e, tarf, fsys) \<Rightarrow>
                           s\<lparr>fs := fsys, tar := tarf, queue := Some q1,
                             daemon := Some (Crashed e), log := log s @ [Get x, TarClose]\<rparr>
                       | Inr (tarf, fsys) \<Rightarrow>
                           (case task_done q1 of
                              Inl e \<Rightarrow>
                                s\<lparr>fs := fsys, tar := tarf, queue := Some q1,
                                  daemon := Some (Crashed e), log := log s @ [Get x, TarClose]\<rparr>
                            | Inr q2 \<Rightarrow>
                                s\<lparr>fs := fsys, tar := tarf, queue := Some q2,
                                  log := log s @ [Get x, TaskDone]\<rparr>))))
      | _ \<Rightarrow> s)"

text \<open>The worker after \<open>n\<close> turns of its loop.\<close>

fun add_files_daemon :: "nat \<Rightarrow> state \<Rightarrow> state" where
  "add_files_daemon 0 s = s"
| "add_files_daemon (Suc n) s = add_files_daemon n (loop_body s)"

section \<open>The controller\<close>

text \<open>\<open>__init__\<close>: no queue and no worker yet.\<close>

definition init :: "string \<Rightarrow> filesystem \<Rightarrow> tarinfo list \<Rightarrow> state" where
  "init fp fsys members =
     \<lparr>tar_fp = fp, fs = fsys, tar = members, queue = None, daemon = None, log = []\<rparr>"

text \<open>\<open>__enter__\<close>: a fresh queue and a started worker.\<close>

definition enter :: "state \<Rightarrow> state" where
  "enter s = s\<lparr>queue := Some \<lparr>items = [], unfinished = 0\<rparr>, daemon := Some Running\<rparr>"

definition is_alive :: "process \<Rightarrow> bool" where
  "is_alive p = (p = Running)"

text \<open>\<open>tar_files\<close>, lines 112 to 133.\<close>

definition tar_files :: "int \<Rightarrow> string list \<Rightarrow> state \<Rightarrow> result" where
  "tar_files ep filepaths s =
     (case daemon s of
        None \<Rightarrow>
          Raises (Exception ''This method can only be used inside a TarCheckpoints context.'') s
      | Some p \<Rightarrow>
          if \<not> is_alive p then Raises (Exception []) s
          else (case queue s of
                  None \<Rightarrow> Raises AttributeError s
                | Some q \<Rightarrow>
                    Returns (s\<lparr>queue := Some (put (Dict \<lparr>epoch = ep, files = filepaths\<rparr>) q)\<rparr>)))"

text \<open>
  \<open>queue.join()\<close> returns once every item put has been acknowledged. While the caller
  waits the worker goes on; when the worker can do no more and items are still
  unacknowledged, the caller waits for ever, which is the value \<open>None\<close>.
\<close>

function join :: "state \<Rightarrow> state option" where
  "join s =
     (case queue s of
        None \<Rightarrow> None
      | Some q \<Rightarrow>
          if unfinished q = 0 then Some s
          else if daemon s = Some Running \<and> items q \<noteq> [] then join (loop_body s)
          else None)"
  by pat_completeness auto

lemma items_loop_body:
  assumes "daemon s = Some Running" "queue s = Some q" "items q = x # rest"
  shows "\<exists>q'. queue (loop_body s) = Some q' \<and> items q' = rest"
  using assms
  by (auto simp: loop_body_def task_done_def Let_def split: item.splits sum.splits prod.splits)

termination join
proof (relation "measure (\<lambda>s. case queue s of None \<Rightarrow> 0 | Some q \<Rightarrow> length (items q))")
  show "wf (measure (\<lambda>s. case queue s of None \<Rightarrow> 0 | Some q \<Rightarrow> length (items q)))"
    by simp
next
  fix s :: state and q
  assume a: "queue s = Some q" "\<not> unfinished q = 0" "daemon s = Some Running \<and> items q \<noteq> []"
  then obtain x rest where xr: "items q = x # rest" by (cases "items q") auto
  with a items_loop_body [of s q x rest] obtain q' where
    "queue (loop_body s) = Some q'" "items q' = rest" by blast
  with a xr show "(loop_body s, s)
      \<in> measure (\<lambda>s. case queue s of None \<Rightarrow> 0 | Some q \<Rightarrow> length (items q))"
    by simp
qed

declare join.simps [simp del]

definition kill :: "state \<Rightarrow> state" where
  "kill s = s\<lparr>daemon := map_option (\<lambda>p. if is_alive p then Killed else p) (daemon s)\<rparr>"

text \<open>
  \<open>_await_queue\<close>, lines 102 to 110. The worker runs beside the caller: \<open>k\<close> is the
  number of turns its loop takes between the \<open>put\<close> of line 105 and the liveness check
  of line 106.
\<close>

definition await_queue :: "nat \<Rightarrow> state \<Rightarrow> result" where
  "await_queue k s =
     (case queue s of
        None \<Rightarrow> Raises AttributeError s
      | Some q \<Rightarrow>
          let s1 = add_files_daemon k (s\<lparr>queue := Some (put (Str ''break'') q)\<rparr>) in
          (case daemon s1 of
             None \<Rightarrow> Raises AttributeError s1
           | Some p \<Rightarrow>
               if is_alive p then
                 (case join s1 of None \<Rightarrow> Blocks | Some s2 \<Rightarrow> Returns (kill s2))
               else Raises (Exception ''Something is wrong'') s1))"

text \<open>
  \<open>__exit__\<close>, lines 97 to 100: whatever exception left the scope, if any, it waits
  for the queue.
\<close>

definition exit :: "error option \<Rightarrow> nat \<Rightarrow> state \<Rightarrow> result" where
  "exit exc k s = await_queue k s"

text \<open>
  The states of an active session: \<open>active s0 ts s\<close> holds when \<open>s\<close> is reached from
  \<open>s0\<close> by \<open>__enter__\<close>, then calls of \<open>tar_files\<close> that returned, enqueueing the
  tasks \<open>ts\<close> in this order, with turns of the worker's loop anywhere in between.
\<close>

inductive active :: "state \<Rightarrow> task list \<Rightarrow> state \<Rightarrow> bool" for s0 :: state where
  entered: "active s0 [] (enter s0)"
| worked: "active s0 ts s \<Longrightarrow> active s0 ts (loop_body s)"
| enqueued: "active s0 ts s \<Longrightarrow> tar_files ep filepaths s = Returns s'
     \<Longrightarrow> active s0 (ts @ [\<lparr>epoch = ep, files = filepaths\<rparr>]) s'"

section \<open>The extractor\<close>

text \<open>
  \<open>os.path.splitext\<close> and \<open>os.path.join\<close> of \<open>posixpath\<close>. \<open>rfind\<close> is
  \<open>str.rfind\<close>: the last index of the character, or \<open>-1\<close>.
\<close>

definition rfind :: "char \<Rightarrow> string \<Rightarrow> int" where
  "rfind c p =
     (if c \<in> set p then int (length p) - 1 - int (length (takeWhile (\<lambda>x. x \<noteq> c) (rev p)))
      else - 1)"

definition splitext :: "string \<Rightarrow> string \<times> string" where
  "splitext p =
     (let sepIndex = rfind CHR ''/'' p; dotIndex = rfind CHR ''.'' p in
      if dotIndex > sepIndex
         \<and> list_ex (\<lambda>c. c \<noteq> CHR ''.'')
             (take (nat dotIndex - nat (sepIndex + 1)) (drop (nat (sepIndex + 1)) p))
      then (take (nat dotIndex) p, drop (nat dotIndex) p)
      else (p, []))"

definition path_join :: "string \<Rightarrow> string \<Rightarrow> string" where
  "path_join a b =
     (if b \<noteq> [] \<and> hd b = CHR ''/'' then b
      else if a = [] \<or> last a = CHR ''/'' then a @ b
      else a @ ''/'' @ b)"

text \<open>
  \<open>tarf.extract(m, path)\<close> writes the member's bytes to the path joined with the
  member's name and creates the directories above it.
\<close>

definition parents :: "string \<Rightarrow> string list" where
  "parents p = map (\<lambda>i. take i p) (filter (\<lambda>i. p ! i = CHR ''/'') [1..<length p])"

definition tar_extract :: "tarinfo \<Rightarrow> string \<Rightarrow> filesystem \<Rightarrow> filesystem" where
  "tar_extract m path fsys =
     (let target = path_join path (name m) in
      fsys\<lparr>file_at := (file_at fsys)(target \<mapsto> data m),
           dir_at := dir_at fsys \<union> set (parents target)\<rparr>)"


text \<open>
  \<open>TarCheckpoints.extract\<close>, lines 68 to 88, on the members of the archive at \<open>tar_fp\<close>; it returns
  the file system after the extraction and the path.
\<close>

definition extract_epoch ::
  "tarinfo list \<Rightarrow> string \<Rightarrow> int \<Rightarrow> string option \<Rightarrow> filesystem \<Rightarrow> filesystem \<times> string" where
  "extract_epoch members fp ep path fsys =
     (let epoch_str = format_05d ep @ ''/'';
          selected_members = filter (\<lambda>m. prefix epoch_str (name m)) members;
          path' = (case path of None \<Rightarrow> fst (splitext (basename fp)) | Some p \<Rightarrow> p)
      in (foldl (\<lambda>f m. tar_extract m path' f) fsys selected_members,
          path_join path' epoch_str))"


code_pred active .

section \<open>What a session archives\<close>







section \<open>Two sessions, worked through\<close>





definition clash_start :: state where
  "clash_start = init ''ckpt.tar''
     \<lparr>file_at = [''a/w.pt'' \<mapsto> ''one'', ''b/w.pt'' \<mapsto> ''two''], dir_at = {''a'', ''b''}\<rparr> []"

definition clash_left :: state where
  "clash_left =
     \<lparr>tar_fp = ''ckpt.tar'',
      fs = \<lparr>file_at = [''a/w.pt'' \<mapsto> ''one'', ''b/w.pt'' \<mapsto> ''two''], dir_at = {''a'', ''b''}\<rparr>,
      tar = [],
      queue = Some \<lparr>items = [Dict \<lparr>epoch = 0, files = [''a/w.pt'', ''b/w.pt'']\<rparr>],
                    unfinished = 1\<rparr>,
      daemon = Some Running,
      log = []\<rparr>"

definition clash_final :: state where
  "clash_final =
     \<lparr>tar_fp = ''ckpt.tar'',
      fs = \<lparr>file_at = Map.empty, dir_at = {''a'', ''b''}\<rparr>,
      tar = [\<lparr>name = ''00000/w.pt'', data = ''one''\<rparr>, \<lparr>name = ''00000/w.pt'', data = ''two''\<rparr>],
      queue = Some \<lparr>items = [], unfinished = 0\<rparr>,
      daemon = Some Exited,
      log = [Get (Dict \<lparr>epoch = 0, files = [''a/w.pt'', ''b/w.pt'']\<rparr>), TaskDone,
             Get (Str ''break''), TarClose, TaskDone]\<rparr>"

section \<open>Entry names\<close>

lemma digit_char_cases: "d < 10 \<Longrightarrow> is_digit (digit_char d) \<and> digit_val (digit_char d) = d"
proof -
  assume "d < 10"
  then have "d \<in> {0,1,2,3,4,5,6,7,8,9}" by auto
  then show ?thesis by (auto simp: digit_char_def is_digit_def digit_val_def)
qed

lemma is_digit_decimal: "c \<in> set (decimal n) \<Longrightarrow> is_digit c"
proof (induction n arbitrary: c rule: decimal.induct)
  case (1 n)
  show ?case
  proof (cases "n < 10")
    case True
    with "1.prems" show ?thesis by (simp add: decimal.simps [of n] digit_char_cases)
  next
    case False
    with "1.prems" "1.IH" show ?thesis
      by (auto simp: decimal.simps [of n] digit_char_cases)
  qed
qed

lemma decimal_not_Nil: "decimal n \<noteq> []"
  by (simp add: decimal.simps [of n])

lemma numeral_val_snoc: "numeral_val (s @ [c]) = 10 * numeral_val s + digit_val c"
  by (simp add: numeral_val_def)

lemma numeral_val_decimal: "numeral_val (decimal n) = n"
proof (induction n rule: decimal.induct)
  case (1 n)
  show ?case
  proof (cases "n < 10")
    case True
    then show ?thesis by (simp add: decimal.simps [of n] numeral_val_def digit_char_cases)
  next
    case False
    with "1.IH" show ?thesis
      by (simp add: decimal.simps [of n] numeral_val_snoc digit_char_cases)
  qed
qed

lemma foldl_zeros: "foldl (\<lambda>a c. 10 * a + digit_val c) 0 (replicate k CHR ''0'') = 0"
  by (induction k) (simp_all add: digit_val_def)

lemma numeral_val_zfill: "numeral_val (zfill w s) = numeral_val s"
  by (simp add: numeral_val_def zfill_def foldl_zeros)

lemma is_digit_zfill: "c \<in> set (zfill w s) \<Longrightarrow> c = CHR ''0'' \<or> c \<in> set s"
  by (auto simp: zfill_def)

lemma zfill_not_Nil: "s \<noteq> [] \<Longrightarrow> zfill w s \<noteq> []"
  by (simp add: zfill_def)

lemma length_zfill: "length (zfill w s) = max w (length s)"
  by (simp add: zfill_def)

lemma is_digit_not_special: "is_digit c \<Longrightarrow> c \<noteq> CHR ''-'' \<and> c \<noteq> CHR ''/''"
  by (auto simp: is_digit_def)

lemma is_digit_zero: "is_digit CHR ''0''"
  by (simp add: is_digit_def)

lemma digits_zfill_decimal: "c \<in> set (zfill w (decimal n)) \<Longrightarrow> is_digit c"
  using is_digit_zfill is_digit_decimal is_digit_zero by blast

lemma int_val_format_05d: "int_val (format_05d e) = e"
proof (cases "e < 0")
  case True
  then show ?thesis
    by (simp add: format_05d_def int_val_def numeral_val_zfill numeral_val_decimal)
next
  case False
  obtain c cs where eq: "zfill 5 (decimal (nat e)) = c # cs"
    using zfill_not_Nil [OF decimal_not_Nil] by (cases "zfill 5 (decimal (nat e))") auto
  then have "c \<in> set (zfill 5 (decimal (nat e)))" by simp
  then have "c \<noteq> CHR ''-''" using digits_zfill_decimal is_digit_not_special by blast
  moreover have "numeral_val (c # cs) = nat e"
    using eq numeral_val_zfill [of 5 "decimal (nat e)"] by (simp add: numeral_val_decimal)
  ultimately show ?thesis using False eq
    by (simp add: format_05d_def int_val_def)
qed

lemma format_05d_chars: "c \<in> set (format_05d e) \<Longrightarrow> is_digit c \<or> (e < 0 \<and> c = CHR ''-'')"
  using digits_zfill_decimal by (auto simp: format_05d_def split: if_splits)

lemma slash_notin_format_05d: "CHR ''/'' \<notin> set (format_05d e)"
proof
  assume "CHR ''/'' \<in> set (format_05d e)"
  then have "is_digit CHR ''/''" using format_05d_chars by blast
  then show False by (simp add: is_digit_def)
qed

lemma length_decimal_le: "n < 10 ^ k \<Longrightarrow> 0 < k \<Longrightarrow> length (decimal n) \<le> k"
proof (induction n arbitrary: k rule: decimal.induct)
  case (1 n)
  show ?case
  proof (cases "n < 10")
    case True
    with "1.prems" show ?thesis by (simp add: decimal.simps [of n])
  next
    case False
    with "1.prems" obtain j where k: "k = Suc j" by (cases k) auto
    with False "1.prems" have "0 < j" by (cases j) auto
    moreover from k "1.prems" have "n div 10 < 10 ^ j"
      by (simp add: less_mult_imp_div_less mult.commute)
    ultimately have "length (decimal (n div 10)) \<le> j" using "1.IH" False by blast
    with False k show ?thesis by (simp add: decimal.simps [of n])
  qed
qed

lemma length_format_05d: "0 \<le> e \<Longrightarrow> e < 100000 \<Longrightarrow> length (format_05d e) = 5"
proof -
  assume a: "0 \<le> e" "e < 100000"
  then have "nat e < 10 ^ 5" by simp
  then have "length (decimal (nat e)) \<le> 5" using length_decimal_le [of "nat e" 5] by simp
  with a show ?thesis by (simp add: format_05d_def length_zfill)
qed

lemma length_format_05d_ge: "5 \<le> length (format_05d e)"
  by (simp add: format_05d_def length_zfill)

lemma slash_notin_basename: "CHR ''/'' \<notin> set (basename p)"
  by (auto simp: basename_def dest: set_takeWhileD)

lemma basename_split: "\<exists>d. p = d @ basename p \<and> (d = [] \<or> last d = CHR ''/'')"
proof -
  let ?P = "\<lambda>c. c \<noteq> CHR ''/''"
  have "rev p = takeWhile ?P (rev p) @ dropWhile ?P (rev p)" by simp
  then have "p = rev (dropWhile ?P (rev p)) @ rev (takeWhile ?P (rev p))"
    by (metis rev_append rev_rev_ident)
  moreover have "rev (dropWhile ?P (rev p)) = [] \<or> last (rev (dropWhile ?P (rev p))) = CHR ''/''"
  proof (cases "dropWhile ?P (rev p)")
    case Nil then show ?thesis by simp
  next
    case (Cons c cs)
    then have "\<not> ?P c" using hd_dropWhile [of ?P "rev p"] by (metis list.sel(1) list.simps(3))
    with Cons show ?thesis by simp
  qed
  ultimately show ?thesis unfolding basename_def by blast
qed

lemma takeWhile_upto_slash:
  "CHR ''/'' \<notin> set u \<Longrightarrow> takeWhile (\<lambda>c. c \<noteq> CHR ''/'') (u @ CHR ''/'' # v) = u"
  by (induction u) auto

lemma split_at_slash:
  assumes "x @ CHR ''/'' # b = y @ CHR ''/'' # b'" "CHR ''/'' \<notin> set x" "CHR ''/'' \<notin> set y"
  shows "x = y \<and> b = b'"
proof -
  have "takeWhile (\<lambda>c. c \<noteq> CHR ''/'') (x @ CHR ''/'' # b) = x"
    using assms(2) by (rule takeWhile_upto_slash)
  moreover have "takeWhile (\<lambda>c. c \<noteq> CHR ''/'') (y @ CHR ''/'' # b') = y"
    using assms(3) by (rule takeWhile_upto_slash)
  ultimately have "x = y" using assms(1) by metis
  with assms(1) show ?thesis by simp
qed

lemma format_05d_inj: "format_05d e = format_05d e' \<Longrightarrow> e = e'"
  by (metis int_val_format_05d)

lemma archname_eq_iff:
  "archname e f = archname e' f' \<longleftrightarrow> e = e' \<and> basename f = basename f'"
  using split_at_slash [OF _ slash_notin_format_05d slash_notin_format_05d,
      of e "basename f" e' "basename f'"] format_05d_inj
  by (auto simp: archname_def)

section \<open>The controller's calls\<close>





section \<open>The extractor\<close>













lemma extract_nothing:
  "foldl (\<lambda>f m. tar_extract m d f) fsys [] = fsys"
  by simp





section \<open>Archiving tasks\<close>






section \<open>The invariant of a session\<close>



























section \<open>The two sessions\<close>

lemma archname_demo:
  "archname 0 ''run/a.pt'' = ''00000/a.pt''" "archname 1 ''run/b.pt'' = ''00001/b.pt''"
  "archname 0 ''a/w.pt'' = ''00000/w.pt''" "archname 0 ''b/w.pt'' = ''00000/w.pt''"
  by code_simp+






lemma clash_active: "active clash_start [\<lparr>epoch = 0, files = [''a/w.pt'', ''b/w.pt'']\<rparr>] clash_left"
proof -
  have "active clash_start [] (enter clash_start)" by (rule entered)
  moreover have "tar_files 0 [''a/w.pt'', ''b/w.pt''] (enter clash_start) = Returns clash_left"
    by (simp add: tar_files_def enter_def clash_start_def init_def is_alive_def put_def
        clash_left_def)
  ultimately show ?thesis using enqueued [of clash_start "[]"] by fastforce
qed

lemma clash_exit: "exit exc 0 clash_left = Returns clash_final"
  by (simp add: exit_def await_queue_def clash_left_def clash_final_def put_def join.simps
      loop_body_def task_done_def tar_add_def os_remove_def archname_demo kill_def is_alive_def
      fun_eq_iff)

lemma clash_extract:
  "extract_epoch (tar clash_final) ''ckpt.tar'' 0 None (fs clash_final)
     = (\<lparr>file_at = [''ckpt/00000/w.pt'' \<mapsto> ''two''],
          dir_at = {''a'', ''b'', ''ckpt'', ''ckpt/00000''}\<rparr>, ''ckpt/00000/'')"
proof -
  have f: "format_05d 0 = ''00000''" by code_simp
  have d: "fst (splitext (basename ''ckpt.tar'')) = ''ckpt''" by code_simp
  have j: "path_join ''ckpt'' ''00000/w.pt'' = ''ckpt/00000/w.pt''"
    "path_join ''ckpt'' ''00000/'' = ''ckpt/00000/''" by code_simp+
  have p: "set (parents ''ckpt/00000/w.pt'') = {''ckpt'', ''ckpt/00000''}" by code_simp
  show ?thesis
    by (simp add: extract_epoch_def clash_final_def f d j p tar_extract_def)
qed





text \<open>
  Claim C4 (entry naming). The entry name of a file archived under an epoch is the epoch
  formatted by \<open>05d\<close>, a slash, and the basename of the file. The formatted epoch is a
  decimal numeral denoting the epoch, of at least five characters and of exactly five for
  an epoch from 0 to 99999, all of them digits but for the sign of a negative epoch; the
  basename is what follows the last slash of the path. So two files of one basename
  archived under two distinct epochs get distinct entry names.
\<close>

theorem entry_naming:
  "archname e f = format_05d e @ ''/'' @ basename f
   \<and> int_val (format_05d e) = e
   \<and> (\<forall>c \<in> set (format_05d e). is_digit c \<or> (e < 0 \<and> c = CHR ''-''))
   \<and> 5 \<le> length (format_05d e)
   \<and> (0 \<le> e \<and> e < 100000 \<longrightarrow> length (format_05d e) = 5)
   \<and> CHR ''/'' \<notin> set (basename f)
   \<and> (\<exists>d. f = d @ basename f \<and> (d = [] \<or> last d = CHR ''/''))
   \<and> (\<forall>e' f'. e' \<noteq> e \<and> basename f' = basename f \<longrightarrow> archname e' f' \<noteq> archname e f)"
proof -
  have "\<forall>c \<in> set (format_05d e). is_digit c \<or> (e < 0 \<and> c = CHR ''-'')"
    using format_05d_chars by blast
  moreover have "\<forall>e' f'. e' \<noteq> e \<and> basename f' = basename f \<longrightarrow> archname e' f' \<noteq> archname e f"
    by (simp add: archname_eq_iff)
  moreover have "0 \<le> e \<and> e < 100000 \<longrightarrow> length (format_05d e) = 5"
    using length_format_05d by blast
  moreover note int_val_format_05d [of e] length_format_05d_ge [of e]
    slash_notin_basename [of f] basename_split [of f]
  ultimately show ?thesis unfolding archname_def by blast
qed

theorem entry_naming_witness:
  "archname 7 ''run/ckpt.pt'' = ''00007/ckpt.pt'' \<and> archname 8 ''old/ckpt.pt'' = ''00008/ckpt.pt''
   \<and> archname 8 ''old/ckpt.pt'' \<noteq> archname 7 ''run/ckpt.pt'' \<and> length (format_05d 7) = 5"
proof -
  have a: "archname 7 ''run/ckpt.pt'' = ''00007/ckpt.pt''" by code_simp
  have b: "archname 8 ''old/ckpt.pt'' = ''00008/ckpt.pt''" by code_simp
  have c: "basename ''old/ckpt.pt'' = basename ''run/ckpt.pt''" by code_simp
  from entry_naming [of 7 "''run/ckpt.pt''"] c
  have "archname 8 ''old/ckpt.pt'' \<noteq> archname 7 ''run/ckpt.pt''" and "length (format_05d 7) = 5"
    by auto
  with a b show ?thesis by simp
qed














end
